theory Spec2Isabelle
  imports Main
begin

section \<open>The cluster client of elasticsearch/client/cluster.py\<close>

subsection \<open>Arguments, requests and the transport\<close>

text \<open>
  An identifier argument (index, metric, node_id, metric_family) is \<open>None\<close> or a
  string. Python's \<^verbatim>\<open>if x\<close> on such a value is false for \<open>None\<close> and for the
  empty string.
\<close>

definition truthy :: "string option \<Rightarrow> bool" where
  "truthy x = (case x of None \<Rightarrow> False | Some s \<Rightarrow> s \<noteq> [])"

text \<open>
  A keyword argument of a call is either not written at the call site or written
  with a value (which may itself be Python's \<open>None\<close>).
\<close>

datatype 'a kwarg = Omitted | Passed 'a

text \<open>
  One call \<^verbatim>\<open>perform_request(method, url, params=..., body=...)\<close> as the transport
  receives it. Every operation writes \<^verbatim>\<open>params=params\<close>; only some write
  \<^verbatim>\<open>body=body\<close>.
\<close>

record ('p, 'b) request =
  req_method :: string
  req_path :: string
  req_params :: "'p option"
  req_body :: "'b option kwarg"

text \<open>
  The transport is an external collaborator: \<^verbatim>\<open>perform_request\<close> either raises
  (\<open>Inl\<close>) or returns a pair of status and parsed body (\<open>Inr\<close>), and may change
  the transport's own state \<open>'s\<close>.
\<close>

type_synonym ('p, 'b, 'e, 'd, 's) transport =
  "('p, 'b) request \<Rightarrow> 's \<Rightarrow> ('e + int \<times> 'd) \<times> 's"

text \<open>The client object: its only attribute read by the operations is \<^verbatim>\<open>self.transport\<close>.\<close>

record ('p, 'b, 'e, 'd, 's) client =
  transport :: "('p, 'b, 'e, 'd, 's) transport"

text \<open>
  The state an operation runs in: the client object, the transport's state, and the
  list of requests handed to \<^verbatim>\<open>perform_request\<close> so far (what a recording
  transport stub would keep).
\<close>

record ('p, 'b, 'e, 'd, 's) world =
  self :: "('p, 'b, 'e, 'd, 's) client"
  calls :: "('p, 'b) request list"
  remote :: 's

definition perform_request ::
  "string \<Rightarrow> string \<Rightarrow> 'p option \<Rightarrow> 'b option kwarg \<Rightarrow> ('p, 'b, 'e, 'd, 's) world
     \<Rightarrow> ('e + int \<times> 'd) \<times> ('p, 'b, 'e, 'd, 's) world" where
  "perform_request method url params body w =
     (let req = \<lparr>req_method = method, req_path = url, req_params = params, req_body = body\<rparr>
      in case transport (self w) req (remote w) of
           (res, s') \<Rightarrow> (res, w\<lparr>calls := calls w @ [req], remote := s'\<rparr>))"

text \<open>
  The two lines every operation ends with,
  \<^verbatim>\<open>_, data = self.transport.perform_request(...)\<close> and \<^verbatim>\<open>return data\<close>:
  an exception of the call leaves the operation as it is, a returned pair is unpacked
  and its second component returned.
\<close>

definition return_data :: "('e + int \<times> 'd) \<times> 'w \<Rightarrow> ('e + 'd) \<times> 'w" where
  "return_data r =
     (case r of
        (Inl e, w') \<Rightarrow> (Inl e, w')
      | (Inr (_, data), w') \<Rightarrow> (Inr data, w'))"

subsection \<open>Path construction\<close>

text \<open>
  Modelled from the spec: the joining step of \<^verbatim>\<open>_make_path\<close> (see below), as
  Python's \<^verbatim>\<open>sep.join(parts)\<close>.
\<close>

fun join :: "string \<Rightarrow> string list \<Rightarrow> string" where
  "join sep [] = []"
| "join sep [x] = x"
| "join sep (x # y # ys) = x @ sep @ join sep (y # ys)"

text \<open>
  Modelled from the spec: the skipping step of \<^verbatim>\<open>_make_path\<close> (see below); an
  absent part is \<open>None\<close>.
\<close>

fun supplied :: "string option list \<Rightarrow> string list" where
  "supplied [] = []"
| "supplied (None # ps) = supplied ps"
| "supplied (Some p # ps) = p # supplied ps"

text \<open>
  Modelled from the spec: \<^verbatim>\<open>_make_path\<close> is imported from
  \<^verbatim>\<open>elasticsearch/client/utils.py\<close>, which is not among the sources. The
  specification describes it as building the request path "by joining fixed segments
  with the supplied identifiers, skipping absent ones", and every documented path
  starts with a slash.
\<close>

definition make_path :: "string option list \<Rightarrow> string" where
  "make_path parts = ''/'' @ join ''/'' (supplied parts)"

subsection \<open>The operations\<close>

text \<open>
  Each definition is the body of the method of the same name. The
  \<^verbatim>\<open>query_params\<close> decorator (also in \<^verbatim>\<open>utils.py\<close>) hands the body its
  \<open>params\<close> argument; the body passes it on untouched.
\<close>

definition health ::
  "string option \<Rightarrow> 'p option \<Rightarrow> ('p, 'b, 'e, 'd, 's) world
     \<Rightarrow> ('e + 'd) \<times> ('p, 'b, 'e, 'd, 's) world" where
  "health index params w =
     return_data (perform_request ''GET''
       (make_path [Some ''_cluster'', Some ''health'', index]) params Omitted w)"

definition pending_tasks ::
  "'p option \<Rightarrow> ('p, 'b, 'e, 'd, 's) world \<Rightarrow> ('e + 'd) \<times> ('p, 'b, 'e, 'd, 's) world" where
  "pending_tasks params w =
     return_data (perform_request ''GET'' ''/_cluster/pending_tasks'' params Omitted w)"

definition state ::
  "string option \<Rightarrow> string option \<Rightarrow> 'p option \<Rightarrow> ('p, 'b, 'e, 'd, 's) world
     \<Rightarrow> ('e + 'd) \<times> ('p, 'b, 'e, 'd, 's) world" where
  "state metric index params w =
     (let metric = (if truthy index \<and> \<not> truthy metric then Some ''_all'' else metric)
      in return_data (perform_request ''GET''
           (make_path [Some ''_cluster/state'', metric, index]) params Omitted w))"

definition stats ::
  "string option \<Rightarrow> 'p option \<Rightarrow> ('p, 'b, 'e, 'd, 's) world
     \<Rightarrow> ('e + 'd) \<times> ('p, 'b, 'e, 'd, 's) world" where
  "stats node_id params w =
     (let url = ''/_cluster/stats''; url =
            (if truthy node_id then make_path [Some ''_cluster/stats/nodes'', node_id]
             else url)
      in return_data (perform_request ''GET'' url params Omitted w))"

definition reroute ::
  "'b option \<Rightarrow> 'p option \<Rightarrow> ('p, 'b, 'e, 'd, 's) world
     \<Rightarrow> ('e + 'd) \<times> ('p, 'b, 'e, 'd, 's) world" where
  "reroute body params w =
     return_data (perform_request ''POST'' ''/_cluster/reroute'' params (Passed body) w)"

definition get_settings ::
  "'p option \<Rightarrow> ('p, 'b, 'e, 'd, 's) world \<Rightarrow> ('e + 'd) \<times> ('p, 'b, 'e, 'd, 's) world" where
  "get_settings params w =
     return_data (perform_request ''GET'' ''/_cluster/settings'' params Omitted w)"

definition put_settings ::
  "'b option \<Rightarrow> 'p option \<Rightarrow> ('p, 'b, 'e, 'd, 's) world
     \<Rightarrow> ('e + 'd) \<times> ('p, 'b, 'e, 'd, 's) world" where
  "put_settings body params w =
     return_data (perform_request ''PUT'' ''/_cluster/settings'' params (Passed body) w)"

definition node_stats ::
  "string option \<Rightarrow> string option \<Rightarrow> string option \<Rightarrow> 'p option
     \<Rightarrow> ('p, 'b, 'e, 'd, 's) world \<Rightarrow> ('e + 'd) \<times> ('p, 'b, 'e, 'd, 's) world" where
  "node_stats node_id metric_family metric params w =
     (let metric_family =
            (if truthy metric \<and> \<not> truthy metric_family then Some ''all'' else metric_family)
      in return_data (perform_request ''GET''
           (make_path [Some ''_nodes'', node_id, Some ''stats'', metric_family, metric])
           params Omitted w))"

definition node_info ::
  "string option \<Rightarrow> string option \<Rightarrow> 'p option \<Rightarrow> ('p, 'b, 'e, 'd, 's) world
     \<Rightarrow> ('e + 'd) \<times> ('p, 'b, 'e, 'd, 's) world" where
  "node_info node_id metric params w =
     (let node_id = (if \<not> truthy node_id \<and> truthy metric then Some ''_all'' else node_id)
      in return_data (perform_request ''GET''
           (make_path [Some ''_nodes'', node_id, metric]) params Omitted w))"

definition node_shutdown ::
  "string option \<Rightarrow> 'p option \<Rightarrow> ('p, 'b, 'e, 'd, 's) world
     \<Rightarrow> ('e + 'd) \<times> ('p, 'b, 'e, 'd, 's) world" where
  "node_shutdown node_id params w =
     return_data (perform_request ''POST''
       (make_path [Some ''_cluster'', Some ''nodes'', node_id, Some ''_shutdown'']) params
       Omitted w)"

subsection \<open>Calls and signatures\<close>

text \<open>
  A call of one of the ten methods with its arguments bound, so that a statement can
  range over every operation and every argument combination.
\<close>

datatype ('p, 'b) call =
    Health "string option" "'p option"
  | Pending_tasks "'p option"
  | State "string option" "string option" "'p option"
  | Stats "string option" "'p option"
  | Reroute "'b option" "'p option"
  | Get_settings "'p option"
  | Put_settings "'b option" "'p option"
  | Node_stats "string option" "string option" "string option" "'p option"
  | Node_info "string option" "string option" "'p option"
  | Node_shutdown "string option" "'p option"

fun invoke ::
  "('p, 'b) call \<Rightarrow> ('p, 'b, 'e, 'd, 's) world \<Rightarrow> ('e + 'd) \<times> ('p, 'b, 'e, 'd, 's) world" where
  "invoke (Health index params) w = health index params w"
| "invoke (Pending_tasks params) w = pending_tasks params w"
| "invoke (State metric index params) w = state metric index params w"
| "invoke (Stats node_id params) w = stats node_id params w"
| "invoke (Reroute body params) w = reroute body params w"
| "invoke (Get_settings params) w = get_settings params w"
| "invoke (Put_settings body params) w = put_settings body params w"
| "invoke (Node_stats node_id metric_family metric params) w =
     node_stats node_id metric_family metric params w"
| "invoke (Node_info node_id metric params) w = node_info node_id metric params w"
| "invoke (Node_shutdown node_id params) w = node_shutdown node_id params w"

text \<open>
  The parameter lists of the \<^verbatim>\<open>def\<close> lines (without \<open>self\<close>): each parameter with
  \<open>True\<close> when it is declared with a default (\<^verbatim>\<open>=None\<close>) and \<open>False\<close> when it is
  not.
\<close>

datatype operation =
    Op_health | Op_pending_tasks | Op_state | Op_stats | Op_reroute
  | Op_get_settings | Op_put_settings | Op_node_stats | Op_node_info | Op_node_shutdown

fun parameters :: "operation \<Rightarrow> (string \<times> bool) list" where
  "parameters Op_health = [(''index'', True), (''params'', True)]"
| "parameters Op_pending_tasks = [(''params'', True)]"
| "parameters Op_state = [(''metric'', True), (''index'', True), (''params'', True)]"
| "parameters Op_stats = [(''node_id'', True), (''params'', True)]"
| "parameters Op_reroute = [(''body'', True), (''params'', True)]"
| "parameters Op_get_settings = [(''params'', True)]"
| "parameters Op_put_settings = [(''body'', False), (''params'', True)]"
| "parameters Op_node_stats =
     [(''node_id'', True), (''metric_family'', True), (''metric'', True), (''params'', True)]"
| "parameters Op_node_info = [(''node_id'', True), (''metric'', True), (''params'', True)]"
| "parameters Op_node_shutdown = [(''node_id'', True), (''params'', True)]"

fun operation_of :: "('p, 'b) call \<Rightarrow> operation" where
  "operation_of (Health _ _) = Op_health"
| "operation_of (Pending_tasks _) = Op_pending_tasks"
| "operation_of (State _ _ _) = Op_state"
| "operation_of (Stats _ _) = Op_stats"
| "operation_of (Reroute _ _) = Op_reroute"
| "operation_of (Get_settings _) = Op_get_settings"
| "operation_of (Put_settings _ _) = Op_put_settings"
| "operation_of (Node_stats _ _ _ _) = Op_node_stats"
| "operation_of (Node_info _ _ _) = Op_node_info"
| "operation_of (Node_shutdown _ _) = Op_node_shutdown"

subsection \<open>A recording transport stub\<close>

text \<open>
  A concrete transport for running the operations: it counts the requests it has
  served, refuses every \<open>PUT\<close> with an exception and answers every other request
  with status 200 and the request's path as the body.
\<close>

definition stub_transport :: "((string \<times> string) list, string, string, string, nat) transport" where
  "stub_transport req n =
     (if req_method req = ''PUT'' then (Inl ''TransportError'', Suc n)
      else (Inr (200, req_path req), Suc n))"

definition stub_world :: "((string \<times> string) list, string, string, string, nat) world" where
  "stub_world = \<lparr>self = \<lparr>transport = stub_transport\<rparr>, calls = [], remote = 0\<rparr>"

section \<open>Basic facts\<close>

text \<open>What one request-and-return does to the result and to the state.\<close>

lemma run_request:
  "return_data (perform_request method url params body w) =
     (case transport (self w)
             \<lparr>req_method = method, req_path = url, req_params = params, req_body = body\<rparr>
             (remote w) of
        (res, s') \<Rightarrow>
          (map_sum id snd res,
           w\<lparr>calls := calls w @
                 [\<lparr>req_method = method, req_path = url, req_params = params,
                   req_body = body\<rparr>],
             remote := s'\<rparr>))"
  by (auto simp add: perform_request_def return_data_def Let_def split: prod.split sum.split)

lemma run_request_calls:
  "calls (snd (return_data (perform_request method url params body w))) =
     calls w @ [\<lparr>req_method = method, req_path = url, req_params = params, req_body = body\<rparr>]"
  by (simp add: run_request split: prod.split)

lemmas op_defs = health_def pending_tasks_def state_def stats_def reroute_def get_settings_def
  put_settings_def node_stats_def node_info_def node_shutdown_def

text \<open>Every operation is one request followed by the return of its data.\<close>

lemma invoke_run:
  "\<exists>method url params body.
     invoke c w = return_data (perform_request method url params body w)"
  by (cases c) (auto simp add: op_defs Let_def)

lemma stub_world_calls: "calls stub_world = []"
  by (simp add: stub_world_def)

section \<open>Defaulting and routing rules\<close>

text \<open>
  Claim C1. A call of \<open>state\<close> with a non-empty index and no metric behaves as the call
  with the metric \<open>_all\<close> written out: the one request it issues is a \<open>GET\<close> whose
  path is \<open>/_cluster/state/_all/\<close> followed by the index.
\<close>

theorem state_defaults_metric:
  assumes "i \<noteq> []"
  shows "state None (Some i) params w = state (Some ''_all'') (Some i) params w \<and>
         calls (snd (state None (Some i) params w)) =
           calls w @ [\<lparr>req_method = ''GET'', req_path = ''/_cluster/state/_all/'' @ i,
                        req_params = params, req_body = Omitted\<rparr>]"
  using assms by (simp add: state_def truthy_def run_request_calls make_path_def)

theorem state_defaults_metric_witness:
  "''foo'' \<noteq> [] \<and>
   state None (Some ''foo'') None stub_world =
     state (Some ''_all'') (Some ''foo'') None stub_world \<and>
   calls (snd (state None (Some ''foo'') None stub_world)) =
     [\<lparr>req_method = ''GET'', req_path = ''/_cluster/state/_all/foo'',
       req_params = None, req_body = Omitted\<rparr>]"
proof -
  note t = state_defaults_metric [of "''foo''" None stub_world]
  have "calls stub_world = []" by (simp add: stub_world_def)
  with conjunct2 [OF t] conjunct1 [OF t] show ?thesis by simp
qed

text \<open>
  Claim C2. A call of \<open>stats\<close> with a non-empty node_id issues its request to
  \<open>/_cluster/stats/nodes/\<close> followed by the node_id; a call without a node_id issues it
  to \<open>/_cluster/stats\<close>.
\<close>

theorem stats_routes_by_node_id:
  "(n \<noteq> [] \<longrightarrow>
      calls (snd (stats (Some n) params w)) =
        calls w @ [\<lparr>req_method = ''GET'', req_path = ''/_cluster/stats/nodes/'' @ n,
                     req_params = params, req_body = Omitted\<rparr>]) \<and>
   calls (snd (stats None params w)) =
     calls w @ [\<lparr>req_method = ''GET'', req_path = ''/_cluster/stats'',
                  req_params = params, req_body = Omitted\<rparr>]"
  by (simp add: stats_def truthy_def run_request_calls make_path_def)

theorem stats_routes_by_node_id_witness:
  "''n1'' \<noteq> [] \<and>
   calls (snd (stats (Some ''n1'') None stub_world)) =
     [\<lparr>req_method = ''GET'', req_path = ''/_cluster/stats/nodes/n1'',
       req_params = None, req_body = Omitted\<rparr>] \<and>
   calls (snd (stats None None stub_world)) =
     [\<lparr>req_method = ''GET'', req_path = ''/_cluster/stats'',
       req_params = None, req_body = Omitted\<rparr>]"
  using stats_routes_by_node_id [of "''n1''" None stub_world]
  by (simp add: stub_world_calls)

text \<open>
  Claim C3. A call of \<open>node_stats\<close> with a non-empty metric and no metric_family
  behaves as the call with the family \<open>all\<close> written out: the path of its request is
  \<open>/_nodes\<close>, the node_id when one is given, \<open>stats\<close>, \<open>all\<close> and the metric.
\<close>

theorem node_stats_defaults_metric_family:
  assumes "m \<noteq> []"
  shows "node_stats node_id None (Some m) params w =
           node_stats node_id (Some ''all'') (Some m) params w \<and>
         calls (snd (node_stats node_id None (Some m) params w)) =
           calls w @ [\<lparr>req_method = ''GET'',
                        req_path = (case node_id of
                                      None \<Rightarrow> ''/_nodes/stats/all/'' @ m
                                    | Some n \<Rightarrow> ''/_nodes/'' @ n @ ''/stats/all/'' @ m),
                        req_params = params, req_body = Omitted\<rparr>]"
  using assms
  by (simp add: node_stats_def truthy_def run_request_calls make_path_def split: option.split)

theorem node_stats_defaults_metric_family_witness:
  "''docs'' \<noteq> [] \<and>
   node_stats None None (Some ''docs'') None stub_world =
     node_stats None (Some ''all'') (Some ''docs'') None stub_world \<and>
   calls (snd (node_stats None None (Some ''docs'') None stub_world)) =
     [\<lparr>req_method = ''GET'', req_path = ''/_nodes/stats/all/docs'',
       req_params = None, req_body = Omitted\<rparr>]"
proof -
  note t = node_stats_defaults_metric_family [of "''docs''" None None stub_world]
  have "calls stub_world = []" by (simp add: stub_world_def)
  with conjunct2 [OF t] conjunct1 [OF t] show ?thesis by simp
qed

text \<open>
  Claim C4. A call of \<open>node_info\<close> with a non-empty metric and no node_id behaves as
  the call with the node_id \<open>_all\<close> written out: the path of its request is
  \<open>/_nodes/_all/\<close> followed by the metric.
\<close>

theorem node_info_defaults_node_id:
  assumes "m \<noteq> []"
  shows "node_info None (Some m) params w = node_info (Some ''_all'') (Some m) params w \<and>
         calls (snd (node_info None (Some m) params w)) =
           calls w @ [\<lparr>req_method = ''GET'', req_path = ''/_nodes/_all/'' @ m,
                        req_params = params, req_body = Omitted\<rparr>]"
  using assms by (simp add: node_info_def truthy_def run_request_calls make_path_def)

theorem node_info_defaults_node_id_witness:
  "''os'' \<noteq> [] \<and>
   node_info None (Some ''os'') None stub_world =
     node_info (Some ''_all'') (Some ''os'') None stub_world \<and>
   calls (snd (node_info None (Some ''os'') None stub_world)) =
     [\<lparr>req_method = ''GET'', req_path = ''/_nodes/_all/os'',
       req_params = None, req_body = Omitted\<rparr>]"
proof -
  note t = node_info_defaults_node_id [of "''os''" None stub_world]
  have "calls stub_world = []" by (simp add: stub_world_def)
  with conjunct2 [OF t] conjunct1 [OF t] show ?thesis by simp
qed

text \<open>
  Claim C9. The four rules test truthiness: an identifier that is \<open>None\<close> or the empty
  string never triggers a rule that asks for it and always triggers a rule that asks
  for its absence. In particular \<open>state\<close> with an empty index and no metric hands
  \<^verbatim>\<open>_make_path\<close> no metric part, \<open>stats\<close> with an empty node_id goes to
  \<open>/_cluster/stats\<close>, \<open>node_stats\<close> with an empty metric hands \<^verbatim>\<open>_make_path\<close> no
  metric_family part, and \<open>node_info\<close> with an empty node_id and the metric \<open>os\<close> goes
  to \<open>/_nodes/_all/os\<close>.
\<close>

theorem rules_trigger_on_truthiness:
  "state metric index params w =
     return_data (perform_request ''GET''
       (make_path [Some ''_cluster/state'',
                   if index \<in> {None, Some ''''} then metric
                   else if metric \<in> {None, Some ''''} then Some ''_all'' else metric,
                   index]) params Omitted w) \<and>
   stats node_id params w =
     return_data (perform_request ''GET''
       (if node_id \<in> {None, Some ''''} then ''/_cluster/stats''
        else make_path [Some ''_cluster/stats/nodes'', node_id]) params Omitted w) \<and>
   node_stats node_id metric_family metric params w =
     return_data (perform_request ''GET''
       (make_path [Some ''_nodes'', node_id, Some ''stats'',
                   if metric \<in> {None, Some ''''} then metric_family
                   else if metric_family \<in> {None, Some ''''} then Some ''all''
                   else metric_family,
                   metric]) params Omitted w) \<and>
   node_info node_id metric params w =
     return_data (perform_request ''GET''
       (make_path [Some ''_nodes'',
                   if metric \<in> {None, Some ''''} then node_id
                   else if node_id \<in> {None, Some ''''} then Some ''_all'' else node_id,
                   metric]) params Omitted w) \<and>
   state None (Some '''') params w =
     return_data (perform_request ''GET''
       (make_path [Some ''_cluster/state'', None, Some '''']) params Omitted w) \<and>
   calls (snd (state None (Some '''') params w)) \<noteq>
     calls (snd (state (Some ''_all'') (Some '''') params w)) \<and>
   calls (snd (stats (Some '''') params w)) =
     calls w @ [\<lparr>req_method = ''GET'', req_path = ''/_cluster/stats'',
                  req_params = params, req_body = Omitted\<rparr>] \<and>
   node_stats node_id None (Some '''') params w =
     return_data (perform_request ''GET''
       (make_path [Some ''_nodes'', node_id, Some ''stats'', None, Some ''''])
       params Omitted w) \<and>
   calls (snd (node_stats node_id None (Some '''') params w)) \<noteq>
     calls (snd (node_stats node_id (Some ''all'') (Some '''') params w)) \<and>
   calls (snd (node_info (Some '''') (Some ''os'') params w)) =
     calls w @ [\<lparr>req_method = ''GET'', req_path = ''/_nodes/_all/os'',
                  req_params = params, req_body = Omitted\<rparr>]"
  by (cases metric; cases index; cases node_id; cases metric_family)
     (simp_all add: state_def stats_def node_stats_def node_info_def truthy_def
        run_request_calls make_path_def)

theorem rules_trigger_on_truthiness_witness:
  "calls (snd (stats (Some '''') None stub_world)) =
     [\<lparr>req_method = ''GET'', req_path = ''/_cluster/stats'',
       req_params = None, req_body = Omitted\<rparr>] \<and>
   calls (snd (node_info (Some '''') (Some ''os'') None stub_world)) =
     [\<lparr>req_method = ''GET'', req_path = ''/_nodes/_all/os'',
       req_params = None, req_body = Omitted\<rparr>] \<and>
   calls (snd (state None (Some '''') None stub_world)) \<noteq>
     calls (snd (state (Some ''_all'') (Some '''') None stub_world)) \<and>
   calls (snd (node_stats None None (Some '''') None stub_world)) \<noteq>
     calls (snd (node_stats None (Some ''all'') (Some '''') None stub_world))"
proof -
  note t = rules_trigger_on_truthiness
    [where metric = None and index = "Some ''''" and node_id = None
       and metric_family = None and params = None and w = stub_world,
     unfolded stub_world_calls append_Nil]
  from t show ?thesis by blast
qed

section \<open>Properties of every operation\<close>

text \<open>
  Claim C5. Called with no optional argument, every operation issues its request with
  the documented method to the documented base path and nothing after it.
\<close>

theorem base_paths_without_optional_arguments:
  "calls (snd (health None None w)) =
     calls w @ [\<lparr>req_method = ''GET'', req_path = ''/_cluster/health'',
                  req_params = None, req_body = Omitted\<rparr>] \<and>
   calls (snd (pending_tasks None w)) =
     calls w @ [\<lparr>req_method = ''GET'', req_path = ''/_cluster/pending_tasks'',
                  req_params = None, req_body = Omitted\<rparr>] \<and>
   calls (snd (state None None None w)) =
     calls w @ [\<lparr>req_method = ''GET'', req_path = ''/_cluster/state'',
                  req_params = None, req_body = Omitted\<rparr>] \<and>
   calls (snd (stats None None w)) =
     calls w @ [\<lparr>req_method = ''GET'', req_path = ''/_cluster/stats'',
                  req_params = None, req_body = Omitted\<rparr>] \<and>
   calls (snd (reroute None None w)) =
     calls w @ [\<lparr>req_method = ''POST'', req_path = ''/_cluster/reroute'',
                  req_params = None, req_body = Passed None\<rparr>] \<and>
   calls (snd (get_settings None w)) =
     calls w @ [\<lparr>req_method = ''GET'', req_path = ''/_cluster/settings'',
                  req_params = None, req_body = Omitted\<rparr>] \<and>
   calls (snd (put_settings body None w)) =
     calls w @ [\<lparr>req_method = ''PUT'', req_path = ''/_cluster/settings'',
                  req_params = None, req_body = Passed body\<rparr>] \<and>
   calls (snd (node_stats None None None None w)) =
     calls w @ [\<lparr>req_method = ''GET'', req_path = ''/_nodes/stats'',
                  req_params = None, req_body = Omitted\<rparr>] \<and>
   calls (snd (node_info None None None w)) =
     calls w @ [\<lparr>req_method = ''GET'', req_path = ''/_nodes'',
                  req_params = None, req_body = Omitted\<rparr>] \<and>
   calls (snd (node_shutdown None None w)) =
     calls w @ [\<lparr>req_method = ''POST'', req_path = ''/_cluster/nodes/_shutdown'',
                  req_params = None, req_body = Omitted\<rparr>]"
  by (simp add: op_defs truthy_def run_request_calls make_path_def)



text \<open>
  Claim C7. Every operation hands exactly one request to the transport: the list of
  requests grows by one, the transport's state is the one that single call leaves, and
  the client object is the same afterwards.
\<close>

theorem invoke_performs_one_request:
  "\<exists>req. calls (snd (invoke c w)) = calls w @ [req] \<and>
         remote (snd (invoke c w)) = snd (transport (self w) req (remote w)) \<and>
         self (snd (invoke c w)) = self w"
proof -
  obtain m u p b
    where run: "invoke c w = return_data (perform_request m u p b w)"
    using invoke_run by blast
  show ?thesis
    unfolding run by (simp add: run_request split: prod.split)
qed

text \<open>
  Claim C8. An operation raises an exception exactly when the transport raises it on
  the operation's request, and it is the same exception; the client object is
  unchanged.
\<close>

theorem invoke_raises_iff_transport_raises:
  assumes "calls (snd (invoke c w)) = calls w @ [req]"
  shows "(fst (invoke c w) = Inl e) = (fst (transport (self w) req (remote w)) = Inl e) \<and>
         self (snd (invoke c w)) = self w"
proof -
  obtain m u p b
    where run: "invoke c w = return_data (perform_request m u p b w)"
    using invoke_run by blast
  from assms show ?thesis
    unfolding run by (auto simp add: run_request map_sum_def split: prod.splits sum.splits)
qed

theorem invoke_raises_iff_transport_raises_witness:
  "calls (snd (invoke (Put_settings (Some ''{}'') None) stub_world)) =
     calls stub_world @ [\<lparr>req_method = ''PUT'', req_path = ''/_cluster/settings'',
                           req_params = None, req_body = Passed (Some ''{}'')\<rparr>] \<and>
   fst (invoke (Put_settings (Some ''{}'') None) stub_world) = Inl ''TransportError'' \<and>
   self (snd (invoke (Put_settings (Some ''{}'') None) stub_world)) = self stub_world"
proof -
  have sent: "calls (snd (invoke (Put_settings (Some ''{}'') None) stub_world)) =
     calls stub_world @ [\<lparr>req_method = ''PUT'', req_path = ''/_cluster/settings'',
                           req_params = None, req_body = Passed (Some ''{}'')\<rparr>]"
    by (simp add: put_settings_def run_request_calls)
  have raised: "fst (transport (self stub_world)
     \<lparr>req_method = ''PUT'', req_path = ''/_cluster/settings'', req_params = None,
      req_body = Passed (Some ''{}'')\<rparr> (remote stub_world)) = Inl ''TransportError''"
    by (simp add: stub_world_def stub_transport_def)
  from sent raised invoke_raises_iff_transport_raises [OF sent, of "''TransportError''"]
  show ?thesis by blast
qed

text \<open>
  Claim C10. The request of an operation carries a body argument exactly when the
  operation is \<open>reroute\<close> or \<open>put_settings\<close>, and then it is the caller's body
  (for \<open>reroute\<close> possibly \<open>None\<close>); \<open>node_shutdown\<close>, although a \<open>POST\<close>, carries
  none. The only parameter of any operation declared without a default is the body of
  \<open>put_settings\<close>; the body of \<open>reroute\<close> has a default.
\<close>

theorem body_only_from_reroute_and_put_settings:
  assumes "calls (snd (invoke c w)) = calls w @ [req]"
  shows "(req_body req \<noteq> Omitted) = (operation_of c \<in> {Op_reroute, Op_put_settings}) \<and>
         calls (snd (reroute body params w)) =
           calls w @ [\<lparr>req_method = ''POST'', req_path = ''/_cluster/reroute'',
                        req_params = params, req_body = Passed body\<rparr>] \<and>
         calls (snd (put_settings body params w)) =
           calls w @ [\<lparr>req_method = ''PUT'', req_path = ''/_cluster/settings'',
                        req_params = params, req_body = Passed body\<rparr>] \<and>
         calls (snd (node_shutdown node_id params w)) =
           calls w @ [\<lparr>req_method = ''POST'',
                        req_path = make_path [Some ''_cluster'', Some ''nodes'', node_id,
                                              Some ''_shutdown''],
                        req_params = params, req_body = Omitted\<rparr>] \<and>
         map fst (filter (\<lambda>p. \<not> snd p) (parameters op)) =
           (if op = Op_put_settings then [''body''] else []) \<and>
         (''body'', True) \<in> set (parameters Op_reroute)"
proof -
  from assms
  have "(req_body req \<noteq> Omitted) = (operation_of c \<in> {Op_reroute, Op_put_settings})"
    by (cases c) (auto simp add: op_defs Let_def run_request_calls)
  moreover have "map fst (filter (\<lambda>p. \<not> snd p) (parameters op)) =
           (if op = Op_put_settings then [''body''] else [])"
    by (cases op) simp_all
  ultimately show ?thesis
    by (simp add: reroute_def put_settings_def node_shutdown_def run_request_calls)
qed

theorem body_only_from_reroute_and_put_settings_witness:
  "calls (snd (invoke (Node_shutdown None None) stub_world)) =
     calls stub_world @ [\<lparr>req_method = ''POST'', req_path = ''/_cluster/nodes/_shutdown'',
                           req_params = None, req_body = Omitted\<rparr>] \<and>
   calls (snd (reroute None None stub_world)) =
     [\<lparr>req_method = ''POST'', req_path = ''/_cluster/reroute'',
       req_params = None, req_body = Passed None\<rparr>] \<and>
   map fst (filter (\<lambda>p. \<not> snd p) (parameters Op_put_settings)) = [''body'']"
proof -
  have sent: "calls (snd (invoke (Node_shutdown None None) stub_world)) =
     calls stub_world @ [\<lparr>req_method = ''POST'', req_path = ''/_cluster/nodes/_shutdown'',
                           req_params = None, req_body = Omitted\<rparr>]"
    by (simp add: node_shutdown_def run_request_calls make_path_def)
  from sent
    body_only_from_reroute_and_put_settings
      [OF sent, where body = None and params = None and op = Op_put_settings]
  show ?thesis by (simp add: stub_world_calls)
qed

end
